theory Spec2Isabelle
  imports Main "HOL-Library.Word"
begin

unbundle bit_operations_syntax

section \<open>Greybus operations: data model\<close>

text \<open>
  A shallow embedding of the Greybus operation core (\<^verbatim>\<open>operation.c\<close>, the first
  file of \<^verbatim>\<open>src/unnamed/part_000\<close>). Every C function of the file is a HOL function
  of the same name over an explicit \<open>world\<close>: the connection, the objects of the
  operation cache, the host-device buffers, the receive workqueue and the trace of
  calls made to the collaborators (host-device driver, protocol handler, callbacks,
  kernel primitives). A dereference the C code performs on a null or dangling pointer
  is a \<open>fault\<close> result that carries the world at the moment of the fault.
  The world holds one connection, so \<^verbatim>\<open>operation->connection\<close> is that connection.
  \<^verbatim>\<open>gb_operation_response_send\<close> (which calls a function the file does not define),
  \<^verbatim>\<open>gb_operation_init\<close> and \<^verbatim>\<open>gb_operation_exit\<close> are left out.
\<close>

type_synonym u8 = "8 word"
type_synonym u16 = "16 word"

text \<open>A \<^verbatim>\<open>void *\<close> returned by the driver as a send cookie: 64 bits, 0 is NULL.\<close>
type_synonym pointer = "64 word"

datatype gfp_t = GFP_KERNEL | GFP_ATOMIC

text \<open>
  Modelled from the spec: \<^verbatim>\<open>greybus.h\<close> (the connection's state enumeration) is not
  among the sources; the core only compares the state with
  \<^verbatim>\<open>GB_CONNECTION_STATE_ENABLED\<close>.
\<close>
datatype gb_connection_state = GB_CONNECTION_STATE_DISABLED | GB_CONNECTION_STATE_ENABLED

datatype fault = NullPointer | InvalidPointer | OutOfBounds

datatype msg_sel = Request | Response

text \<open>The messages the file passes to \<^verbatim>\<open>gb_connection_err\<close>.\<close>
datatype err_msg =
    UnexpectedIncomingRequest u8
  | CantCreateOperation
  | OperationNotFound
  | RecvBufferTooSmall
  | DroppingReceivedBytes nat
  | MessageTooSmall
  | IncompleteMessage

text \<open>The calls the core makes to its collaborators, in program order.\<close>
datatype event =
    KmemCacheZalloc gfp_t "nat option"
  | KmemCacheFree nat
  | BufferAlloc nat gfp_t "nat option"
  | BufferFree "nat option"
  | BufferSend u16 "nat option" nat gfp_t pointer
  | BufferCancel pointer
  | QueueWork nat
  | ScheduleDelayedWork nat nat
  | CancelDelayedWork nat
  | CallbackCall nat nat
  | CompleteAll nat
  | WaitForCompletion nat int
  | RequestRecv u8 nat
  | ConnectionErr err_msg
  | WarnOn

text \<open>
  \<^verbatim>\<open>struct gb_message\<close>: the back pointer to the operation, the send cookie, the
  payload pointer (a buffer and a byte offset into it), the buffer and its size.
\<close>
record gb_message =
  operation :: "nat option"
  cookie :: pointer
  payload :: "(nat \<times> nat) option"
  buffer :: "nat option"
  buffer_size :: nat

text \<open>
  \<^verbatim>\<open>struct gb_operation\<close>. \<open>callback\<close> is the function pointer given at submit
  time (None is NULL), \<open>completion\<close> the done flag of the completion, \<open>kref\<close> the
  reference count, \<open>timeout_work\<close> whether the delayed work is pending.
\<close>
record gb_operation =
  request :: gb_message
  response :: gb_message
  op_id :: u16
  canceled :: bool
  result :: int
  callback :: "nat option"
  completion :: bool
  kref :: int
  timeout_work :: bool

text \<open>The fields of \<^verbatim>\<open>struct gb_connection\<close> the core reads and writes.\<close>
record gb_connection =
  state :: gb_connection_state
  op_cycle :: u16
  operations :: "nat list"
  pending :: "nat list"
  interface_cport_id :: u16
  protocol_request_recv :: bool

record world =
  connection :: gb_connection
  ops :: "nat \<Rightarrow> gb_operation option"
  next_op :: nat
  bufs :: "nat \<Rightarrow> u8 list option"
  next_buf :: nat
  workqueue :: "nat list"
  trace :: "event list"

text \<open>
  What the collaborators answer. Each answer may depend on the whole trace so far:
  whether the operation cache has memory, the contents of a buffer the driver
  allocates (None: the driver returns NULL), the cookie or \<^verbatim>\<open>ERR_PTR\<close> the driver's
  send returns, and what \<^verbatim>\<open>wait_for_completion_interruptible\<close> returns.
\<close>
record environment =
  kmem_cache_zalloc :: "event list \<Rightarrow> gfp_t \<Rightarrow> bool"
  buffer_alloc :: "event list \<Rightarrow> nat \<Rightarrow> gfp_t \<Rightarrow> (nat \<Rightarrow> u8) option"
  buffer_send :: "event list \<Rightarrow> u16 \<Rightarrow> u8 list option \<Rightarrow> nat \<Rightarrow> gfp_t \<Rightarrow> pointer"
  wait_for_completion_interruptible :: "event list \<Rightarrow> int"

text \<open>
  The result codes of \<^verbatim>\<open>enum gb_operation_status\<close>. Its declaration is not among
  the sources, so the three codes the core stores are parameters.
\<close>
record gb_operation_status =
  GB_OP_TIMEOUT :: int
  GB_OP_OVERFLOW :: int
  GB_OP_PROTOCOL_BAD :: int

text \<open>Modelled from the spec: the result code Success is 0.\<close>
definition GB_OP_SUCCESS :: int where
  "GB_OP_SUCCESS = 0"

definition GB_OPERATION_TYPE_RESPONSE :: u8 where
  "GB_OPERATION_TYPE_RESPONSE = 0x80"

definition OPERATION_TIMEOUT_DEFAULT :: nat where
  "OPERATION_TIMEOUT_DEFAULT = 1000"

definition GB_OPERATION_MESSAGE_SIZE_MAX :: nat where
  "GB_OPERATION_MESSAGE_SIZE_MAX = 4096"

text \<open>\<^verbatim>\<open>sizeof(struct gb_operation_msg_hdr)\<close>: six bytes of fields, aligned to 8.\<close>
definition sizeof_hdr :: nat where
  "sizeof_hdr = 8"

text \<open>The kernel's errno values used by the file.\<close>
definition E2BIG :: int where
  "E2BIG = 7"

definition ENOMEM :: int where
  "ENOMEM = 12"

definition ENOTCONN :: int where
  "ENOTCONN = 107"

text \<open>\<^verbatim>\<open>IS_ERR\<close> and \<^verbatim>\<open>PTR_ERR\<close>: the top 4095 addresses encode a negative errno.\<close>
definition IS_ERR :: "pointer \<Rightarrow> bool" where
  "IS_ERR p = (- 4095 \<le> p)"

definition PTR_ERR :: "pointer \<Rightarrow> int" where
  "PTR_ERR p = sint p"

subsection \<open>The message header in a buffer\<close>

text \<open>
  \<^verbatim>\<open>struct gb_operation_msg_hdr\<close>: size (bytes 0-1, little endian), operation id
  (bytes 2-3, little endian), type (byte 4), result (byte 5), two bytes of padding.
\<close>

definition le16_to_cpu :: "u8 \<Rightarrow> u8 \<Rightarrow> u16" where
  "le16_to_cpu lo hi = push_bit 8 (ucast hi) OR ucast lo"

definition hdr_set_size :: "u16 \<Rightarrow> u8 list \<Rightarrow> u8 list" where
  "hdr_set_size v b = b[0 := ucast v, 1 := ucast (drop_bit 8 v)]"

definition hdr_set_operation_id :: "u16 \<Rightarrow> u8 list \<Rightarrow> u8 list" where
  "hdr_set_operation_id v b = b[2 := ucast v, 3 := ucast (drop_bit 8 v)]"

definition hdr_set_type :: "u8 \<Rightarrow> u8 list \<Rightarrow> u8 list" where
  "hdr_set_type t b = b[4 := t]"

definition hdr_set_result :: "u8 \<Rightarrow> u8 list \<Rightarrow> u8 list" where
  "hdr_set_result r b = b[5 := r]"

definition hdr_size :: "u8 list \<Rightarrow> u16" where
  "hdr_size b = le16_to_cpu (b ! 0) (b ! 1)"

definition hdr_operation_id :: "u8 list \<Rightarrow> u16" where
  "hdr_operation_id b = le16_to_cpu (b ! 2) (b ! 3)"

definition hdr_type :: "u8 list \<Rightarrow> u8" where
  "hdr_type b = b ! 4"

definition hdr_result :: "u8 list \<Rightarrow> u8" where
  "hdr_result b = b ! 5"

text \<open>
  Dereferencing a buffer pointer as a header: NULL and dangling pointers fault, and so
  does a buffer too short to hold a header.
\<close>
definition header_of :: "world \<Rightarrow> nat option \<Rightarrow> fault + nat \<times> u8 list" where
  "header_of s p =
     (case p of
        None \<Rightarrow> Inl NullPointer
      | Some b \<Rightarrow>
          (case bufs s b of
             None \<Rightarrow> Inl InvalidPointer
           | Some bytes \<Rightarrow>
               if length bytes < sizeof_hdr then Inl OutOfBounds else Inr (b, bytes)))"

definition log_event :: "event \<Rightarrow> world \<Rightarrow> world" where
  "log_event ev s = s\<lparr>trace := trace s @ [ev]\<rparr>"

definition msg_get :: "msg_sel \<Rightarrow> gb_operation \<Rightarrow> gb_message" where
  "msg_get w opr = (case w of Request \<Rightarrow> request opr | Response \<Rightarrow> response opr)"

definition msg_set :: "msg_sel \<Rightarrow> gb_message \<Rightarrow> gb_operation \<Rightarrow> gb_operation" where
  "msg_set w m opr =
     (case w of Request \<Rightarrow> opr\<lparr>request := m\<rparr> | Response \<Rightarrow> opr\<lparr>response := m\<rparr>)"

text \<open>An object of the operation cache as \<^verbatim>\<open>kmem_cache_zalloc\<close> returns it: all zero.\<close>
definition zero_message :: gb_message where
  "zero_message =
     \<lparr>operation = None, cookie = 0, payload = None, buffer = None, buffer_size = 0\<rparr>"

definition zero_operation :: gb_operation where
  "zero_operation =
     \<lparr>request = zero_message, response = zero_message, op_id = 0, canceled = False,
      result = 0, callback = None, completion = False, kref = 0, timeout_work = False\<rparr>"

section \<open>Kernel primitives\<close>

text \<open>
  The list, workqueue, delayed-work and cache primitives the file calls, with the
  kernel's meaning: \<^verbatim>\<open>list_del\<close> unlinks the operation from whichever of the
  connection's two lists holds it; \<^verbatim>\<open>queue_work\<close> does nothing when the work is
  already queued; a delayed work is pending from \<^verbatim>\<open>schedule_delayed_work\<close> until
  it is cancelled or its timer expires.
\<close>

definition list_del :: "nat \<Rightarrow> gb_connection \<Rightarrow> gb_connection" where
  "list_del x c =
     c\<lparr>operations := removeAll x (operations c), pending := removeAll x (pending c)\<rparr>"

definition set_timeout_work :: "nat \<Rightarrow> bool \<Rightarrow> world \<Rightarrow> world" where
  "set_timeout_work opr v s =
     s\<lparr>ops := (ops s)(opr := map_option (\<lambda>obj. obj\<lparr>timeout_work := v\<rparr>) (ops s opr))\<rparr>"

definition schedule_delayed_work :: "nat \<Rightarrow> nat \<Rightarrow> world \<Rightarrow> world" where
  "schedule_delayed_work opr delay s =
     log_event (ScheduleDelayedWork opr delay) (set_timeout_work opr True s)"

definition cancel_delayed_work :: "nat \<Rightarrow> world \<Rightarrow> world" where
  "cancel_delayed_work opr s = log_event (CancelDelayedWork opr) (set_timeout_work opr False s)"

definition queue_work :: "nat \<Rightarrow> world \<Rightarrow> world" where
  "queue_work opr s =
     log_event (QueueWork opr)
       (if opr \<in> set (workqueue s) then s else s\<lparr>workqueue := workqueue s @ [opr]\<rparr>)"

definition kmem_cache_free :: "nat \<Rightarrow> world \<Rightarrow> world" where
  "kmem_cache_free opr s = log_event (KmemCacheFree opr) (s\<lparr>ops := (ops s)(opr := None)\<rparr>)"

text \<open>\<^verbatim>\<open>memcpy(dst, src, n)\<close> into a host-device buffer.\<close>
definition memcpy :: "nat option \<Rightarrow> u8 list \<Rightarrow> nat \<Rightarrow> world \<Rightarrow> fault \<times> world + world" where
  "memcpy dst src n s =
     (case dst of
        None \<Rightarrow> Inl (NullPointer, s)
      | Some b \<Rightarrow>
          (case bufs s b of
             None \<Rightarrow> Inl (InvalidPointer, s)
           | Some bytes \<Rightarrow>
               if length bytes < n \<or> length src < n then Inl (OutOfBounds, s)
               else Inr (s\<lparr>bufs := (bufs s)(b \<mapsto> take n src @ drop n bytes)\<rparr>)))"

text \<open>Reading one byte through a pointer into a buffer.\<close>
definition read_byte :: "world \<Rightarrow> (nat \<times> nat) option \<Rightarrow> fault + u8" where
  "read_byte s p =
     (case p of
        None \<Rightarrow> Inl NullPointer
      | Some (b, off) \<Rightarrow>
          (case bufs s b of
             None \<Rightarrow> Inl InvalidPointer
           | Some bytes \<Rightarrow> if off < length bytes then Inr (bytes ! off) else Inl OutOfBounds))"

section \<open>The pending table\<close>

definition gb_pending_operation_insert :: "nat \<Rightarrow> world \<Rightarrow> fault \<times> world + world" where
  "gb_pending_operation_insert opr s =
     (case ops s opr of
        None \<Rightarrow> Inl (InvalidPointer, s)
      | Some obj \<Rightarrow>
          let c = list_del opr ((connection s)\<lparr>op_cycle := op_cycle (connection s) + 1\<rparr>);
              s1 = s\<lparr>connection := c\<lparr>pending := pending c @ [opr]\<rparr>,
                     ops := (ops s)(opr \<mapsto> obj\<lparr>op_id := op_cycle c\<rparr>)\<rparr>
          in (case header_of s1 (buffer (request obj)) of
                Inl f \<Rightarrow> Inl (f, s1)
              | Inr (b, bytes) \<Rightarrow>
                  Inr (s1\<lparr>bufs := (bufs s1)(b \<mapsto> hdr_set_operation_id (op_cycle c) bytes)\<rparr>)))"

definition gb_pending_operation_remove :: "nat \<Rightarrow> world \<Rightarrow> fault \<times> world + world" where
  "gb_pending_operation_remove opr s =
     (case ops s opr of
        None \<Rightarrow> Inl (InvalidPointer, s)
      | Some obj \<Rightarrow>
          let c = list_del opr (connection s)
          in Inr (s\<lparr>connection := c\<lparr>operations := operations c @ [opr]\<rparr>\<rparr>))"

fun pending_scan :: "(nat \<Rightarrow> gb_operation option) \<Rightarrow> u16 \<Rightarrow> nat list \<Rightarrow> fault + nat option" where
  "pending_scan h i [] = Inr None"
| "pending_scan h i (x # xs) =
     (case h x of
        None \<Rightarrow> Inl InvalidPointer
      | Some obj \<Rightarrow> if op_id obj = i then Inr (Some x) else pending_scan h i xs)"

definition gb_pending_operation_find :: "world \<Rightarrow> u16 \<Rightarrow> fault + nat option" where
  "gb_pending_operation_find s operation_id =
     pending_scan (ops s) operation_id (pending (connection s))"

section \<open>Messages\<close>

definition set_cookie :: "nat \<times> msg_sel \<Rightarrow> pointer \<Rightarrow> world \<Rightarrow> world" where
  "set_cookie message ck s =
     s\<lparr>ops := (ops s)(fst message :=
          map_option (\<lambda>obj. msg_set (snd message) ((msg_get (snd message) obj)\<lparr>cookie := ck\<rparr>) obj)
            (ops s (fst message)))\<rparr>"

definition gb_message_send ::
  "environment \<Rightarrow> nat \<times> msg_sel \<Rightarrow> gfp_t \<Rightarrow> world \<Rightarrow> fault \<times> world + int \<times> world" where
  "gb_message_send e message gfp_mask s =
     (case ops s (fst message) of
        None \<Rightarrow> Inl (InvalidPointer, s)
      | Some obj \<Rightarrow>
          let m = msg_get (snd message) obj
          in (case operation m of
                None \<Rightarrow> Inl (NullPointer, s)
              | Some owner \<Rightarrow>
                  (case ops s owner of
                     None \<Rightarrow> Inl (InvalidPointer, s)
                   | Some _ \<Rightarrow>
                       let dest_cport_id = interface_cport_id (connection s);
                           contents = (case buffer m of None \<Rightarrow> None | Some b \<Rightarrow> bufs s b);
                           ck = buffer_send e (trace s) dest_cport_id contents (buffer_size m) gfp_mask;
                           s1 = log_event
                                  (BufferSend dest_cport_id (buffer m) (buffer_size m) gfp_mask ck) s
                       in if IS_ERR ck then Inr (PTR_ERR ck, set_cookie message 0 s1)
                          else Inr (0, set_cookie message ck s1))))"

definition gb_message_cancel :: "nat \<times> msg_sel \<Rightarrow> world \<Rightarrow> fault \<times> world + world" where
  "gb_message_cancel message s =
     (case ops s (fst message) of
        None \<Rightarrow> Inl (InvalidPointer, s)
      | Some obj \<Rightarrow>
          let m = msg_get (snd message) obj
          in if cookie m = 0 then Inr s
             else (case operation m of
                     None \<Rightarrow> Inl (NullPointer, s)
                   | Some owner \<Rightarrow>
                       (case ops s owner of
                          None \<Rightarrow> Inl (InvalidPointer, s)
                        | Some _ \<Rightarrow> Inr (log_event (BufferCancel (cookie m)) s))))"

section \<open>Completion\<close>

definition gb_operation_complete :: "nat \<Rightarrow> world \<Rightarrow> fault \<times> world + world" where
  "gb_operation_complete opr s =
     (case ops s opr of
        None \<Rightarrow> Inl (InvalidPointer, s)
      | Some obj \<Rightarrow>
          (case callback obj of
             Some cb \<Rightarrow> Inr (log_event (CallbackCall cb opr) s)
           | None \<Rightarrow>
               Inr (log_event (CompleteAll opr)
                      (s\<lparr>ops := (ops s)(opr \<mapsto> obj\<lparr>completion := True\<rparr>)\<rparr>))))"

definition gb_operation_wait ::
  "environment \<Rightarrow> nat \<Rightarrow> world \<Rightarrow> fault \<times> world + int \<times> world" where
  "gb_operation_wait e opr s =
     (let ret = wait_for_completion_interruptible e (trace s);
          s1 = log_event (WaitForCompletion opr ret) s
      in if ret < 0
         then (case gb_message_cancel (opr, Request) s1 of
                 Inl f \<Rightarrow> Inl f
               | Inr s2 \<Rightarrow> Inr (ret, s2))
         else Inr (ret, s1))"

definition gb_operation_request_handle ::
  "gb_operation_status \<Rightarrow> nat \<Rightarrow> world \<Rightarrow> fault \<times> world + world" where
  "gb_operation_request_handle codes opr s =
     (case ops s opr of
        None \<Rightarrow> Inl (InvalidPointer, s)
      | Some obj \<Rightarrow>
          (case header_of s (buffer (request obj)) of
             Inl f \<Rightarrow> Inl (f, s)
           | Inr (b, bytes) \<Rightarrow>
               if protocol_request_recv (connection s)
               then Inr (log_event (RequestRecv (hdr_type bytes) opr) s)
               else Inr (log_event (ConnectionErr (UnexpectedIncomingRequest (hdr_type bytes)))
                           (s\<lparr>ops := (ops s)(opr \<mapsto> obj\<lparr>result := GB_OP_PROTOCOL_BAD codes\<rparr>)\<rparr>))))"

definition gb_operation_recv_work ::
  "gb_operation_status \<Rightarrow> nat \<Rightarrow> world \<Rightarrow> fault \<times> world + world" where
  "gb_operation_recv_work codes opr s =
     (case ops s opr of
        None \<Rightarrow> Inl (InvalidPointer, s)
      | Some obj \<Rightarrow>
          if buffer (response obj) = None
          then (case gb_operation_request_handle codes opr s of
                  Inl f \<Rightarrow> Inl f
                | Inr s1 \<Rightarrow> gb_operation_complete opr s1)
          else gb_operation_complete opr s)"

definition operation_timeout ::
  "gb_operation_status \<Rightarrow> nat \<Rightarrow> world \<Rightarrow> fault \<times> world + world" where
  "operation_timeout codes opr s =
     (case ops s opr of
        None \<Rightarrow> Inl (InvalidPointer, s)
      | Some obj \<Rightarrow>
          gb_operation_complete opr
            (s\<lparr>ops := (ops s)(opr \<mapsto> obj\<lparr>result := GB_OP_TIMEOUT codes\<rparr>)\<rparr>))"

section \<open>Message buffers\<close>

definition gb_operation_message_init ::
  "environment \<Rightarrow> nat \<Rightarrow> u8 \<Rightarrow> nat \<Rightarrow> bool \<Rightarrow> gfp_t \<Rightarrow> world \<Rightarrow> fault \<times> world + int \<times> world" where
  "gb_operation_message_init e opr type sz is_request gfp_flags s =
     (case ops s opr of
        None \<Rightarrow> Inl (InvalidPointer, s)
      | Some obj \<Rightarrow>
          if sz > GB_OPERATION_MESSAGE_SIZE_MAX then Inr (- E2BIG, s)
          else
            let size1 = sz + sizeof_hdr;
                w = (if is_request then Request else Response);
                type1 = (if is_request then type else type OR GB_OPERATION_TYPE_RESPONSE);
                m = msg_get w obj
            in (case buffer_alloc e (trace s) size1 gfp_flags of
                  None \<Rightarrow>
                    Inr (- ENOMEM,
                         log_event (BufferAlloc size1 gfp_flags None)
                           (s\<lparr>ops := (ops s)(opr \<mapsto> msg_set w (m\<lparr>buffer := None\<rparr>) obj)\<rparr>))
                | Some contents \<Rightarrow>
                    let b = next_buf s;
                        bytes = hdr_set_type type1
                                  (hdr_set_operation_id 0
                                    (hdr_set_size (of_nat size1) (map contents [0..<size1])));
                        m1 = m\<lparr>buffer := Some b, buffer_size := size1,
                               payload := Some (b, sizeof_hdr), operation := Some opr\<rparr>
                    in Inr (0,
                            log_event (BufferAlloc size1 gfp_flags (Some b))
                              (s\<lparr>ops := (ops s)(opr \<mapsto> msg_set w m1 obj),
                                 bufs := (bufs s)(b \<mapsto> bytes),
                                 next_buf := Suc b\<rparr>))))"

definition gb_operation_message_exit :: "nat \<times> msg_sel \<Rightarrow> world \<Rightarrow> fault \<times> world + world" where
  "gb_operation_message_exit message s =
     (case ops s (fst message) of
        None \<Rightarrow> Inl (InvalidPointer, s)
      | Some obj \<Rightarrow>
          let m = msg_get (snd message) obj
          in (case operation m of
                None \<Rightarrow> Inl (NullPointer, s)
              | Some owner \<Rightarrow>
                  (case ops s owner of
                     None \<Rightarrow> Inl (InvalidPointer, s)
                   | Some _ \<Rightarrow>
                       let m1 = m\<lparr>operation := None, payload := None, buffer := None,
                                  buffer_size := 0\<rparr>
                       in Inr (log_event (BufferFree (buffer m))
                                 (s\<lparr>ops := (ops s)(fst message \<mapsto> msg_set (snd message) m1 obj),
                                    bufs := (case buffer m of
                                               None \<Rightarrow> bufs s
                                             | Some b \<Rightarrow> (bufs s)(b := None))\<rparr>)))))"

section \<open>Creating and destroying operations\<close>

text \<open>
  The tail of \<^verbatim>\<open>gb_operation_create_common\<close> after both buffers are allocated:
  the work items and the completion are initialised, the reference count is set to 1
  and the operation is appended to the connection's \<^verbatim>\<open>operations\<close> list.
\<close>
definition create_finish :: "nat \<Rightarrow> world \<Rightarrow> world" where
  "create_finish opr s =
     s\<lparr>ops := (ops s)(opr :=
          map_option (\<lambda>obj. obj\<lparr>callback := None, completion := False,
                               timeout_work := False, kref := 1\<rparr>) (ops s opr)),
       connection := (connection s)\<lparr>operations := operations (connection s) @ [opr]\<rparr>\<rparr>"

definition gb_operation_create_common ::
  "environment \<Rightarrow> bool \<Rightarrow> u8 \<Rightarrow> nat \<Rightarrow> nat \<Rightarrow> world \<Rightarrow> fault \<times> world + nat option \<times> world" where
  "gb_operation_create_common e outgoing type request_size response_size s =
     (let gfp_flags = (if response_size \<noteq> 0 then GFP_KERNEL else GFP_ATOMIC)
      in if \<not> kmem_cache_zalloc e (trace s) gfp_flags
         then Inr (None, log_event (KmemCacheZalloc gfp_flags None) s)
         else
           let opr = next_op s;
               s0 = log_event (KmemCacheZalloc gfp_flags (Some opr))
                      (s\<lparr>ops := (ops s)(opr \<mapsto> zero_operation), next_op := Suc opr\<rparr>)
           in (case gb_operation_message_init e opr type request_size True gfp_flags s0 of
                 Inl f \<Rightarrow> Inl f
               | Inr (ret, s1) \<Rightarrow>
                   if ret \<noteq> 0 then Inr (None, kmem_cache_free opr s1)
                   else if outgoing
                   then (case gb_operation_message_init e opr type response_size False
                                 GFP_KERNEL s1 of
                           Inl f \<Rightarrow> Inl f
                         | Inr (ret2, s2) \<Rightarrow>
                             if ret2 \<noteq> 0
                             then (case gb_operation_message_exit (opr, Request) s2 of
                                     Inl f \<Rightarrow> Inl f
                                   | Inr s3 \<Rightarrow> Inr (None, kmem_cache_free opr s3))
                             else Inr (Some opr, create_finish opr s2))
                   else Inr (Some opr, create_finish opr s1)))"

definition gb_operation_create ::
  "environment \<Rightarrow> u8 \<Rightarrow> nat \<Rightarrow> nat \<Rightarrow> world \<Rightarrow> fault \<times> world + nat option \<times> world" where
  "gb_operation_create e type request_size response_size s =
     gb_operation_create_common e True type request_size response_size s"

definition gb_operation_create_incoming ::
  "environment \<Rightarrow> u8 \<Rightarrow> nat \<Rightarrow> nat \<Rightarrow> world \<Rightarrow> fault \<times> world + nat option \<times> world" where
  "gb_operation_create_incoming e type request_size response_size s =
     gb_operation_create_common e False type request_size response_size s"

text \<open>\<^verbatim>\<open>_gb_operation_destroy\<close> (a HOL name cannot start with an underscore).\<close>
definition kref_gb_operation_destroy :: "nat \<Rightarrow> world \<Rightarrow> fault \<times> world + world" where
  "kref_gb_operation_destroy opr s =
     (case ops s opr of
        None \<Rightarrow> Inl (InvalidPointer, s)
      | Some obj \<Rightarrow>
          let s1 = s\<lparr>connection := list_del opr (connection s)\<rparr>
          in (case gb_operation_message_exit (opr, Response) s1 of
                Inl f \<Rightarrow> Inl f
              | Inr s2 \<Rightarrow>
                  (case gb_operation_message_exit (opr, Request) s2 of
                     Inl f \<Rightarrow> Inl f
                   | Inr s3 \<Rightarrow> Inr (kmem_cache_free opr s3))))"

text \<open>
  \<^verbatim>\<open>gb_operation_put\<close>; the argument None is the NULL pointer. \<^verbatim>\<open>kref_put\<close>
  decrements the count and calls the release function when it reaches zero.
\<close>
definition gb_operation_put :: "nat option \<Rightarrow> world \<Rightarrow> fault \<times> world + world" where
  "gb_operation_put p s =
     (case p of
        None \<Rightarrow> Inr (log_event WarnOn s)
      | Some opr \<Rightarrow>
          (case ops s opr of
             None \<Rightarrow> Inl (InvalidPointer, s)
           | Some obj \<Rightarrow>
               let s1 = s\<lparr>ops := (ops s)(opr \<mapsto> obj\<lparr>kref := kref obj - 1\<rparr>)\<rparr>
               in if kref obj - 1 = 0 then kref_gb_operation_destroy opr s1 else Inr s1))"

section \<open>Submitting a request\<close>

definition gb_operation_request_send ::
  "environment \<Rightarrow> nat \<Rightarrow> nat option \<Rightarrow> world \<Rightarrow> fault \<times> world + int \<times> world" where
  "gb_operation_request_send e opr cb s =
     (case ops s opr of
        None \<Rightarrow> Inl (InvalidPointer, s)
      | Some obj \<Rightarrow>
          if state (connection s) \<noteq> GB_CONNECTION_STATE_ENABLED then Inr (- ENOTCONN, s)
          else
            (case gb_pending_operation_insert opr
                    (s\<lparr>ops := (ops s)(opr \<mapsto> obj\<lparr>callback := cb\<rparr>)\<rparr>) of
               Inl f \<Rightarrow> Inl f
             | Inr s2 \<Rightarrow>
                 (case gb_message_send e (opr, Request) GFP_KERNEL s2 of
                    Inl f \<Rightarrow> Inl f
                  | Inr (ret, s3) \<Rightarrow>
                      if ret \<noteq> 0 then Inr (ret, s3)
                      else
                        let s4 = schedule_delayed_work opr OPERATION_TIMEOUT_DEFAULT s3
                        in if cb = None then gb_operation_wait e opr s4 else Inr (ret, s4))))"

section \<open>Receiving\<close>

definition gb_connection_recv_request ::
  "environment \<Rightarrow> u16 \<Rightarrow> u8 \<Rightarrow> u8 list \<Rightarrow> nat \<Rightarrow> world \<Rightarrow> fault \<times> world + world" where
  "gb_connection_recv_request e operation_id type data sz s =
     (case gb_operation_create_incoming e type sz 0 s of
        Inl f \<Rightarrow> Inl f
      | Inr (None, s1) \<Rightarrow> Inr (log_event (ConnectionErr CantCreateOperation) s1)
      | Inr (Some opr, s1) \<Rightarrow>
          (case ops s1 opr of
             None \<Rightarrow> Inl (InvalidPointer, s1)
           | Some obj \<Rightarrow>
               (case memcpy (buffer (request obj)) data sz
                       (s1\<lparr>ops := (ops s1)(opr \<mapsto> obj\<lparr>op_id := operation_id\<rparr>)\<rparr>) of
                  Inl f \<Rightarrow> Inl f
                | Inr s2 \<Rightarrow> Inr (queue_work opr s2))))"

definition gb_connection_recv_response ::
  "gb_operation_status \<Rightarrow> u16 \<Rightarrow> u8 list \<Rightarrow> nat \<Rightarrow> world \<Rightarrow> fault \<times> world + world" where
  "gb_connection_recv_response codes operation_id data sz s =
     (case gb_pending_operation_find s operation_id of
        Inl f \<Rightarrow> Inl (f, s)
      | Inr None \<Rightarrow> Inr (log_event (ConnectionErr OperationNotFound) s)
      | Inr (Some opr) \<Rightarrow>
          (case gb_pending_operation_remove opr (cancel_delayed_work opr s) of
             Inl f \<Rightarrow> Inl f
           | Inr s2 \<Rightarrow>
               (case ops s2 opr of
                  None \<Rightarrow> Inl (InvalidPointer, s2)
                | Some obj \<Rightarrow>
                    let message = response obj
                    in if sz > buffer_size message
                       then Inr (log_event (ConnectionErr RecvBufferTooSmall)
                                   (s2\<lparr>ops := (ops s2)(opr \<mapsto> obj\<lparr>result := GB_OP_OVERFLOW codes\<rparr>)\<rparr>))
                       else
                         (case read_byte s2 (payload message) of
                            Inl f \<Rightarrow> Inl (f, s2)
                          | Inr v \<Rightarrow>
                              (case header_of s2 (buffer message) of
                                 Inl f \<Rightarrow> Inl (f, s2)
                               | Inr (b, bytes) \<Rightarrow>
                                   let s3 = s2\<lparr>bufs := (bufs s2)(b \<mapsto> hdr_set_result v bytes),
                                               ops := (ops s2)(opr \<mapsto> obj\<lparr>result := uint v\<rparr>)\<rparr>
                                   in if uint v = GB_OP_SUCCESS
                                      then (case memcpy (buffer message) data sz s3 of
                                              Inl f \<Rightarrow> Inl f
                                            | Inr s4 \<Rightarrow> Inr (queue_work opr s4))
                                      else Inr (queue_work opr s3))))))"

text \<open>
  \<^verbatim>\<open>gb_connection_recv(connection, data, size)\<close>: \<open>data\<close> is the list of the
  \<open>length data\<close> bytes received.
\<close>
definition gb_connection_recv ::
  "environment \<Rightarrow> gb_operation_status \<Rightarrow> u8 list \<Rightarrow> world \<Rightarrow> fault \<times> world + world" where
  "gb_connection_recv e codes data s =
     (let sz = length data
      in if state (connection s) \<noteq> GB_CONNECTION_STATE_ENABLED
         then Inr (log_event (ConnectionErr (DroppingReceivedBytes sz)) s)
         else if sz < sizeof_hdr then Inr (log_event (ConnectionErr MessageTooSmall) s)
         else
           let msg_size = unat (hdr_size data)
           in if msg_size > sz then Inr (log_event (ConnectionErr IncompleteMessage) s)
              else if hdr_type data AND GB_OPERATION_TYPE_RESPONSE \<noteq> 0
              then gb_connection_recv_response codes (hdr_operation_id data) data msg_size s
              else gb_connection_recv_request e (hdr_operation_id data) (hdr_type data)
                     data msg_size s)"

section \<open>Cancelling\<close>

definition gb_operation_cancel :: "nat \<Rightarrow> world \<Rightarrow> fault \<times> world + world" where
  "gb_operation_cancel opr s =
     (case ops s opr of
        None \<Rightarrow> Inl (InvalidPointer, s)
      | Some obj \<Rightarrow>
          (case gb_message_cancel (opr, Request)
                  (s\<lparr>ops := (ops s)(opr \<mapsto> obj\<lparr>canceled := True\<rparr>)\<rparr>) of
             Inl f \<Rightarrow> Inl f
           | Inr s2 \<Rightarrow>
               if buffer (response obj) \<noteq> None then gb_message_cancel (opr, Response) s2
               else Inr s2))"

section \<open>The contexts that run the core's work items\<close>

text \<open>
  The kernel runs \<^verbatim>\<open>operation_timeout\<close> when the timer of a pending delayed work
  expires (the work is no longer pending while its function runs), and the worker of
  the receive workqueue runs \<^verbatim>\<open>gb_operation_recv_work\<close> on the work at the head of
  the queue.
\<close>

definition timer_expires ::
  "gb_operation_status \<Rightarrow> nat \<Rightarrow> world \<Rightarrow> fault \<times> world + world" where
  "timer_expires codes opr s =
     (case ops s opr of
        None \<Rightarrow> Inl (InvalidPointer, s)
      | Some obj \<Rightarrow>
          if timeout_work obj then operation_timeout codes opr (set_timeout_work opr False s)
          else Inr s)"

definition worker_runs :: "gb_operation_status \<Rightarrow> world \<Rightarrow> fault \<times> world + world" where
  "worker_runs codes s =
     (case workqueue s of
        [] \<Rightarrow> Inr s
      | opr # rest \<Rightarrow> gb_operation_recv_work codes opr (s\<lparr>workqueue := rest\<rparr>))"

text \<open>How often \<^verbatim>\<open>gb_operation_complete\<close> delivered the completion of an operation.\<close>
definition is_completion :: "nat \<Rightarrow> event \<Rightarrow> bool" where
  "is_completion opr ev =
     (case ev of CallbackCall cb x \<Rightarrow> x = opr | CompleteAll x \<Rightarrow> x = opr | _ \<Rightarrow> False)"

definition completions :: "nat \<Rightarrow> world \<Rightarrow> nat" where
  "completions opr s = length (filter (is_completion opr) (trace s))"

section \<open>Concrete runs\<close>

text \<open>
  Sequencing of entry points: a fault ends the run. \<open>world_after\<close> drops the value a
  function returns, \<open>final_world\<close> is the world a run ends in and \<open>fault_of\<close> the
  fault that ended it, if any.
\<close>

definition then_do ::
  "fault \<times> world + world \<Rightarrow> (world \<Rightarrow> fault \<times> world + world) \<Rightarrow> fault \<times> world + world" where
  "then_do r f = (case r of Inl x \<Rightarrow> Inl x | Inr s \<Rightarrow> f s)"

definition world_after :: "fault \<times> world + 'a \<times> world \<Rightarrow> fault \<times> world + world" where
  "world_after r = (case r of Inl x \<Rightarrow> Inl x | Inr (v, s) \<Rightarrow> Inr s)"

definition final_world :: "fault \<times> world + world \<Rightarrow> world" where
  "final_world r = (case r of Inl (f, s) \<Rightarrow> s | Inr s \<Rightarrow> s)"

definition fault_of :: "fault \<times> world + world \<Rightarrow> fault option" where
  "fault_of r = (case r of Inl (f, s) \<Rightarrow> Some f | Inr s \<Rightarrow> None)"

text \<open>
  Collaborators for the runs: \<open>env_ok\<close> never fails, hands out zeroed buffers and
  returns the cookie \<open>0x1000\<close> from every send; \<open>env_stale\<close> hands out buffers
  filled with the byte \<open>0x5A\<close> instead; the send of \<open>env_send_fails\<close> returns
  \<^verbatim>\<open>ERR_PTR(-ENOMEM)\<close>.
\<close>

definition env_ok :: environment where
  "env_ok =
     \<lparr>kmem_cache_zalloc = (\<lambda>tr g. True),
      buffer_alloc = (\<lambda>tr n g. Some (\<lambda>i. 0)),
      buffer_send = (\<lambda>tr cport b n g. 0x1000),
      wait_for_completion_interruptible = (\<lambda>tr. 0)\<rparr>"

definition env_stale :: environment where
  "env_stale = env_ok\<lparr>buffer_alloc := (\<lambda>tr n g. Some (\<lambda>i. 0x5A))\<rparr>"

definition env_send_fails :: environment where
  "env_send_fails = env_ok\<lparr>buffer_send := (\<lambda>tr cport b n g. - 12)\<rparr>"

definition codes0 :: gb_operation_status where
  "codes0 = \<lparr>GB_OP_TIMEOUT = 0xff, GB_OP_OVERFLOW = 6, GB_OP_PROTOCOL_BAD = 5\<rparr>"

text \<open>
  An enabled connection with no operations and no request handler. The next operation
  is object 10 of the cache, the next buffers are 20 and 21.
\<close>
definition world0 :: world where
  "world0 =
     \<lparr>connection = \<lparr>state = GB_CONNECTION_STATE_ENABLED, op_cycle = 0, operations = [],
                    pending = [], interface_cport_id = 3, protocol_request_recv = False\<rparr>,
      ops = (\<lambda>a. None), next_op = 10, bufs = (\<lambda>a. None), next_buf = 20,
      workqueue = [], trace = []\<rparr>"

definition world_wrap :: world where
  "world_wrap = world0\<lparr>connection := (connection world0)\<lparr>op_cycle := 0xFFFF\<rparr>\<rparr>"

text \<open>
  An outgoing operation of type 2 with an empty request payload and a response payload
  of 4 bytes is created (object 10, request buffer 20 of 8 bytes, response buffer 21 of
  12 bytes), and then submitted with callback 7.
\<close>
definition created :: "environment \<Rightarrow> world \<Rightarrow> fault \<times> world + world" where
  "created e s = world_after (gb_operation_create e 2 0 4 s)"

definition submitted :: "environment \<Rightarrow> world \<Rightarrow> fault \<times> world + world" where
  "submitted e s =
     then_do (created e s) (\<lambda>s1. world_after (gb_operation_request_send e 10 (Some 7) s1))"

text \<open>
  Response frames for operation id 1: size 12, type \<open>0x82\<close>, result 0 and four payload
  bytes; the same with result byte 7; and one of 16 bytes, too large for the response
  buffer.
\<close>
definition success_frame :: "u8 list" where
  "success_frame = [12, 0, 1, 0, 0x82, 0, 0, 0, 0xDE, 0xAD, 0xBE, 0xEF]"

definition error_frame :: "u8 list" where
  "error_frame = [12, 0, 1, 0, 0x82, 7, 0, 0, 0xDE, 0xAD, 0xBE, 0xEF]"

definition overflow_frame :: "u8 list" where
  "overflow_frame = [16, 0, 1, 0, 0x82, 0, 0, 0, 1, 2, 3, 4, 5, 6, 7, 8]"

text \<open>A request frame: size 10, id \<open>0x4242\<close>, type 3, payload 1, 2.\<close>
definition request_frame :: "u8 list" where
  "request_frame = [0x0A, 0, 0x42, 0x42, 3, 0, 0, 0, 1, 2]"

text \<open>The timer of the submitted operation expires; then its response arrives.\<close>
definition timed_out :: "fault \<times> world + world" where
  "timed_out = then_do (submitted env_ok world0) (timer_expires codes0 10)"

definition late_response :: "fault \<times> world + world" where
  "late_response =
     then_do (then_do timed_out (gb_connection_recv env_ok codes0 success_frame))
       (worker_runs codes0)"

text \<open>
  The response \<open>success_frame\<close> arrives for the operation submitted with buffers
  that were handed out filled with \<open>0x5A\<close>; the response \<open>error_frame\<close> arrives
  for the operation submitted with zeroed buffers.
\<close>
definition stale_response :: "fault \<times> world + world" where
  "stale_response =
     then_do (submitted env_stale world0) (gb_connection_recv env_stale codes0 success_frame)"

definition error_response :: "fault \<times> world + world" where
  "error_response =
     then_do (submitted env_ok world0) (gb_connection_recv env_ok codes0 error_frame)"

text \<open>An operation is created and inserted when the id counter is \<open>0xFFFF\<close>.\<close>
definition wrapped_insert :: "fault \<times> world + world" where
  "wrapped_insert = then_do (created env_ok world_wrap) (gb_pending_operation_insert 10)"

text \<open>The response to the submitted operation is larger than its response buffer.\<close>
definition overflowed :: "fault \<times> world + world" where
  "overflowed =
     then_do (then_do (submitted env_ok world0) (gb_connection_recv env_ok codes0 overflow_frame))
       (worker_runs codes0)"

text \<open>
  A request arrives, the worker handles and completes it, and the reference the
  creator holds is released.
\<close>
definition incoming_handled :: "fault \<times> world + world" where
  "incoming_handled =
     then_do (gb_connection_recv env_ok codes0 request_frame world0) (worker_runs codes0)"

definition incoming_released :: "fault \<times> world + world" where
  "incoming_released = then_do incoming_handled (gb_operation_put (Some 10))"

text \<open>An outgoing operation is created and its only reference is released.\<close>
definition outgoing_released :: "fault \<times> world + world" where
  "outgoing_released = then_do (created env_ok world0) (gb_operation_put (Some 10))"

text \<open>The submitted operation is cancelled once, and twice.\<close>
definition cancelled_once :: "fault \<times> world + world" where
  "cancelled_once = then_do (submitted env_ok world0) (gb_operation_cancel 10)"

definition cancelled_twice :: "fault \<times> world + world" where
  "cancelled_twice = then_do cancelled_once (gb_operation_cancel 10)"

text \<open>
  The world inside \<^verbatim>\<open>gb_operation_create_common\<close> right after
  \<^verbatim>\<open>kmem_cache_zalloc\<close> returned the zeroed object 10.
\<close>
definition world_zalloc :: world where
  "world_zalloc =
     world0\<lparr>ops := (ops world0)(10 \<mapsto> zero_operation), next_op := 11,
            trace := [KmemCacheZalloc GFP_KERNEL (Some 10)]\<rparr>"

text \<open>A request buffer for a payload of 4090 bytes is initialised for object 10.\<close>
definition large_init :: "fault \<times> world + world" where
  "large_init =
     world_after (gb_operation_message_init env_ok 10 2 4090 True GFP_KERNEL world_zalloc)"

text \<open>
  The calls to the driver's \<^verbatim>\<open>buffer_cancel\<close> that one \<^verbatim>\<open>gb_operation_cancel\<close>
  makes, read off \<^verbatim>\<open>gb_operation_cancel\<close> and \<^verbatim>\<open>gb_message_cancel\<close>: one for the
  request when its cookie is not NULL, one for the response when it has a buffer and
  its cookie is not NULL.
\<close>
definition cancel_calls :: "gb_operation \<Rightarrow> event list" where
  "cancel_calls obj =
     (if cookie (request obj) = 0 then [] else [BufferCancel (cookie (request obj))]) @
     (if buffer (response obj) \<noteq> None \<and> cookie (response obj) \<noteq> 0
      then [BufferCancel (cookie (response obj))] else [])"

section \<open>Auxiliary facts\<close>

text \<open>The cookie and the error pointer of the runs.\<close>

lemma IS_ERR_cookie: "\<not> IS_ERR 0x1000"
  by (simp add: IS_ERR_def)

lemma IS_ERR_enomem: "IS_ERR (- 12)"
  unfolding IS_ERR_def by code_simp

lemma PTR_ERR_enomem: "PTR_ERR (- 12) = - 12"
  unfolding PTR_ERR_def by code_simp

lemmas model_defs =
  gb_operation_create_def gb_operation_create_common_def gb_operation_message_init_def
  gb_operation_message_exit_def gb_operation_create_incoming_def
  log_event_def msg_get_def msg_set_def zero_operation_def zero_message_def
  create_finish_def GB_OPERATION_MESSAGE_SIZE_MAX_def sizeof_hdr_def hdr_set_type_def
  hdr_set_operation_id_def hdr_set_size_def hdr_set_result_def GB_OPERATION_TYPE_RESPONSE_def
  hdr_size_def hdr_operation_id_def hdr_type_def hdr_result_def le16_to_cpu_def
  gb_operation_request_send_def gb_pending_operation_insert_def gb_pending_operation_remove_def
  gb_pending_operation_find_def gb_message_send_def gb_message_cancel_def set_cookie_def
  gb_operation_complete_def gb_operation_wait_def gb_operation_request_handle_def
  gb_operation_recv_work_def operation_timeout_def kref_gb_operation_destroy_def
  gb_operation_put_def gb_connection_recv_request_def gb_connection_recv_response_def
  gb_connection_recv_def gb_operation_cancel_def timer_expires_def worker_runs_def
  list_del_def set_timeout_work_def schedule_delayed_work_def cancel_delayed_work_def
  queue_work_def kmem_cache_free_def memcpy_def read_byte_def header_of_def
  GB_OP_SUCCESS_def OPERATION_TIMEOUT_DEFAULT_def E2BIG_def ENOMEM_def ENOTCONN_def
  completions_def is_completion_def Let_def

lemmas run_defs =
  then_do_def world_after_def final_world_def fault_of_def stale_response_def
  error_response_def wrapped_insert_def env_ok_def env_stale_def env_send_fails_def
  codes0_def world0_def world_wrap_def created_def submitted_def success_frame_def
  error_frame_def overflow_frame_def request_frame_def timed_out_def late_response_def
  overflowed_def incoming_handled_def incoming_released_def outgoing_released_def
  cancelled_once_def
  cancelled_twice_def cancel_calls_def world_zalloc_def IS_ERR_cookie IS_ERR_enomem PTR_ERR_enomem

lemma le16_roundtrip: "le16_to_cpu (ucast v) (ucast (drop_bit 8 v)) = (v::u16)"
  unfolding le16_to_cpu_def
  by (rule bit_word_eqI) (auto simp: bit_simps)

lemma length_hdr_set:
  "length (hdr_set_size v b) = length b"
  "length (hdr_set_operation_id v b) = length b"
  "length (hdr_set_type t b) = length b"
  "length (hdr_set_result t b) = length b"
  by (simp_all add: hdr_set_size_def hdr_set_operation_id_def hdr_set_type_def
      hdr_set_result_def)

lemma hdr_size_init:
  assumes "2 \<le> length bytes"
  shows "hdr_size (hdr_set_type t (hdr_set_operation_id i (hdr_set_size v bytes))) = v"
proof -
  from assms have "bytes \<noteq> []" "1 < length bytes" by auto
  then show ?thesis
    by (simp add: hdr_size_def hdr_set_type_def hdr_set_operation_id_def hdr_set_size_def
        le16_roundtrip)
qed

lemma hdr_operation_id_set:
  "4 \<le> length bytes \<Longrightarrow> hdr_operation_id (hdr_set_operation_id v bytes) = v"
  by (simp add: hdr_operation_id_def hdr_set_operation_id_def le16_roundtrip)

lemma unat_frame_size: "n \<le> 4104 \<Longrightarrow> unat (of_nat n :: u16) = n"
  by (simp add: unat_of_nat)

lemma header_ofD:
  "header_of s p = Inr (b, bytes) \<Longrightarrow>
   p = Some b \<and> bufs s b = Some bytes \<and> \<not> length bytes < sizeof_hdr"
  by (auto simp: header_of_def split: option.splits if_splits)

lemma u16_minus_one: "(- 1 :: u16) = 0xFFFF"
  by code_simp

lemma u16_succ_zero: "(c + 1 = 0) = (c = (0xFFFF :: u16))"
proof -
  have "(c + 1 = 0) = (c = - 1)" by (simp add: eq_neg_iff_add_eq_0)
  then show ?thesis by (simp only: u16_minus_one)
qed

lemma int_mod_shift: "m \<le> x \<Longrightarrow> x < 2 * m \<Longrightarrow> x mod m = x - (m::int)"
proof -
  assume a: "m \<le> x" "x < 2 * m"
  have "x mod m = (x - m) mod m" by simp
  also have "\<dots> = x - m" using a by (intro mod_pos_pos_trivial) simp_all
  finally show ?thesis .
qed

text \<open>An error pointer encodes an errno between -4095 and -1.\<close>
lemma PTR_ERR_range: "IS_ERR p \<Longrightarrow> - 4095 \<le> PTR_ERR p \<and> PTR_ERR p < 0"
proof -
  assume a: "IS_ERR p"
  then have u: "2 ^ 64 - 4095 \<le> uint p" by (simp add: IS_ERR_def word_le_def)
  have ub: "uint p < 2 ^ 64" using uint_bounded [of p] by simp
  have "sint p = (uint p + 2 ^ 63) mod 2 ^ 64 - 2 ^ 63"
    by (simp add: sint_uint signed_take_bit_eq_take_bit_shift take_bit_eq_mod)
  also have "(uint p + 2 ^ 63) mod 2 ^ 64 = uint p + 2 ^ 63 - 2 ^ 64"
    using u ub by (intro int_mod_shift) simp_all
  finally show ?thesis using u ub by (simp add: PTR_ERR_def)
qed

section \<open>Exactly-once completion\<close>

text \<open>
  Claim C1 (Complete is invoked exactly once per operation; a response that arrives
  after the timeout delivered the completion is dropped). The code does otherwise:
  \<^verbatim>\<open>operation_timeout\<close> completes the operation and leaves it on the pending list,
  so the late response with the same id is matched, queued and completed again. In
  the run \<open>late_response\<close> the callback of operation 10 is called twice.
\<close>
theorem late_response_completes_twice:
  "fault_of late_response = None \<and>
   completions 10 (final_world late_response) = 2 \<and>
   filter (is_completion 10) (trace (final_world late_response)) =
     [CallbackCall 7 10, CallbackCall 7 10]"
  by (simp add: run_defs model_defs upt_rec)

text \<open>
  Claim C2 (after Complete returns the operation is not on the pending list, on every
  completion path). On the timeout path the code completes the operation without
  removing it: after the timer of the submitted operation 10 expired, its completion
  has been delivered once with the result \<^verbatim>\<open>GB_OP_TIMEOUT\<close> and the operation is
  still pending.
\<close>
theorem timeout_leaves_operation_pending:
  "fault_of timed_out = None \<and>
   completions 10 (final_world timed_out) = 1 \<and>
   map_option result (ops (final_world timed_out) 10) = Some (GB_OP_TIMEOUT codes0) \<and>
   pending (connection (final_world timed_out)) = [10]"
  by (simp add: run_defs model_defs upt_rec)

section \<open>Responses\<close>

text \<open>
  Claim C3, as amended. For a response that matches a pending operation and fits its
  response buffer, \<^verbatim>\<open>gb_connection_recv_response\<close> cancels the timeout work, moves
  the operation from the pending list to the tail of the operations list, records a
  result on the operation and queues the operation's work. The incoming bytes are
  copied into the response buffer only when the recorded result is Success; otherwise
  the payload of the response buffer is left as it was.
\<close>
theorem recv_response_matched:
  assumes found: "gb_pending_operation_find s operation_id = Inr (Some opr)"
    and obj: "ops s opr = Some obj"
    and buf: "buffer (response obj) = Some b" "bufs s b = Some bytes"
    and pay: "payload (response obj) = Some (b, sizeof_hdr)"
    and len: "sizeof_hdr < length bytes" "buffer_size (response obj) = length bytes"
    and fits: "sz \<le> buffer_size (response obj)"
    and data: "sz \<le> length data"
  shows "\<exists>s' r bytes'.
           gb_connection_recv_response codes operation_id data sz s = Inr s' \<and>
           pending (connection s') = removeAll opr (pending (connection s)) \<and>
           operations (connection s') = removeAll opr (operations (connection s)) @ [opr] \<and>
           map_option timeout_work (ops s' opr) = Some False \<and>
           trace s' = trace s @ [CancelDelayedWork opr, QueueWork opr] \<and>
           opr \<in> set (workqueue s') \<and>
           map_option result (ops s' opr) = Some r \<and>
           bufs s' b = Some bytes' \<and>
           length bytes' = length bytes \<and>
           (r = GB_OP_SUCCESS \<longrightarrow> take sz bytes' = take sz data) \<and>
           (r \<noteq> GB_OP_SUCCESS \<longrightarrow> drop sizeof_hdr bytes' = drop sizeof_hdr bytes)"
proof (cases "bytes ! sizeof_hdr = 0")
  case True
  then show ?thesis
    using assms
    by (simp add: gb_connection_recv_response_def gb_pending_operation_remove_def
        cancel_delayed_work_def set_timeout_work_def log_event_def list_del_def Let_def
        read_byte_def header_of_def memcpy_def queue_work_def GB_OP_SUCCESS_def
        length_hdr_set)
next
  case False
  then have nz: "uint (bytes ! sizeof_hdr) \<noteq> 0" by (simp add: uint_0_iff)
  show ?thesis
    using assms nz
    by (simp add: gb_connection_recv_response_def gb_pending_operation_remove_def
        cancel_delayed_work_def set_timeout_work_def log_event_def list_del_def Let_def
        read_byte_def header_of_def memcpy_def queue_work_def GB_OP_SUCCESS_def
        length_hdr_set hdr_set_result_def sizeof_hdr_def)
qed

text \<open>
  The theorem at the submitted operation 10 of \<open>env_ok\<close> and the frame
  \<open>success_frame\<close>: the frame is copied into buffer 21.
\<close>
theorem recv_response_matched_witness:
  "\<exists>s'. gb_connection_recv_response codes0 1 success_frame 12
           (final_world (submitted env_ok world0)) = Inr s' \<and>
        pending (connection s') = [] \<and>
        operations (connection s') = [10] \<and>
        map_option timeout_work (ops s' 10) = Some False \<and>
        workqueue s' = [10] \<and>
        map_option result (ops s' 10) = Some 0 \<and>
        bufs s' 21 = Some success_frame"
proof -
  let ?s = "final_world (submitted env_ok world0)"
  have h1: "gb_pending_operation_find ?s 1 = Inr (Some 10)"
    by (simp add: run_defs model_defs upt_rec)
  have h2: "ops ?s 10 = Some (the (ops ?s 10))"
    by (simp add: run_defs model_defs upt_rec)
  have h3: "buffer (response (the (ops ?s 10))) = Some 21"
    by (simp add: run_defs model_defs upt_rec)
  have h4: "bufs ?s 21 = Some [12, 0, 0, 0, 0x82, 0, 0, 0, 0, 0, 0, 0]"
    by (simp add: run_defs model_defs upt_rec)
  have h5: "payload (response (the (ops ?s 10))) = Some (21, sizeof_hdr)"
    by (simp add: run_defs model_defs upt_rec)
  have h6: "sizeof_hdr < length [12, 0, 0, 0, 0x82, 0, 0, 0, 0, 0, 0, 0 :: u8]"
    by (simp add: sizeof_hdr_def)
  have h7: "buffer_size (response (the (ops ?s 10))) =
              length [12, 0, 0, 0, 0x82, 0, 0, 0, 0, 0, 0, 0 :: u8]"
    by (simp add: run_defs model_defs upt_rec)
  have h8: "12 \<le> buffer_size (response (the (ops ?s 10)))"
    by (simp add: run_defs model_defs upt_rec)
  have h9: "12 \<le> length success_frame"
    by (simp add: success_frame_def)
  from recv_response_matched [OF h1 h2 h3 h4 h5 h6 h7 h8 h9, of codes0]
  show ?thesis
    by (simp add: run_defs model_defs upt_rec)
qed

text \<open>
  Claim C3 as stated (the incoming bytes are copied whatever the result byte is, and
  the operation's result is the result byte of the copied header) fails. With buffers
  that the driver hands out filled with \<open>0x5A\<close>, the successful response
  \<open>success_frame\<close> is not copied and the result recorded is \<open>0x5A\<close>; with zeroed
  buffers the response \<open>error_frame\<close>, whose result byte is 7, is recorded as result 0.
\<close>
theorem recv_response_result_counterexample:
  "fault_of stale_response = None \<and>
   workqueue (final_world stale_response) = [10] \<and>
   bufs (final_world stale_response) 21 \<noteq> Some success_frame \<and>
   uint (hdr_result success_frame) = 0 \<and>
   map_option result (ops (final_world stale_response) 10) = Some 0x5A \<and>
   fault_of error_response = None \<and>
   workqueue (final_world error_response) = [10] \<and>
   bufs (final_world error_response) 21 = Some error_frame \<and>
   uint (hdr_result error_frame) = 7 \<and>
   map_option result (ops (final_world error_response) 10) = Some 0"
  by (simp add: run_defs model_defs upt_rec)

text \<open>
  Claim C4 (on a response larger than the response buffer the result is Overflow,
  Complete fires and nothing is copied). The code sets the result and copies nothing,
  but returns before queueing the work: in the run \<open>overflowed\<close> the operation is off
  the pending list, its timeout is cancelled, the workqueue is empty and no completion
  was ever delivered.
\<close>
theorem overflow_never_completes:
  "fault_of overflowed = None \<and>
   map_option result (ops (final_world overflowed) 10) = Some (GB_OP_OVERFLOW codes0) \<and>
   bufs (final_world overflowed) 21 = Some [12, 0, 0, 0, 0x82, 0, 0, 0, 0, 0, 0, 0] \<and>
   completions 10 (final_world overflowed) = 0 \<and>
   workqueue (final_world overflowed) = [] \<and>
   pending (connection (final_world overflowed)) = [] \<and>
   map_option timeout_work (ops (final_world overflowed) 10) = Some False"
  by (simp add: run_defs model_defs upt_rec)

section \<open>The pending table and the operation id\<close>

text \<open>
  Claim C5, as amended. \<^verbatim>\<open>gb_pending_operation_insert\<close> increments the
  connection's 16-bit counter modulo \<open>2^16\<close> and assigns the new value as the
  operation's id, without skipping 0: the id is 0 exactly when the counter was
  \<open>0xFFFF\<close>. The operation is moved to the tail of the pending list and the id is
  written, little endian, into the header of the request buffer.
\<close>
theorem pending_insert_assigns_id:
  assumes "ops s opr = Some obj"
    and "header_of s (buffer (request obj)) = Inr (b, bytes)"
  shows "\<exists>s'. gb_pending_operation_insert opr s = Inr s' \<and>
           op_cycle (connection s') = op_cycle (connection s) + 1 \<and>
           map_option op_id (ops s' opr) = Some (op_cycle (connection s) + 1) \<and>
           (op_cycle (connection s) + 1 = 0) = (op_cycle (connection s) = 0xFFFF) \<and>
           pending (connection s') = removeAll opr (pending (connection s)) @ [opr] \<and>
           operations (connection s') = removeAll opr (operations (connection s)) \<and>
           map_option hdr_operation_id (bufs s' b) = Some (op_cycle (connection s) + 1)"
proof -
  from header_ofD [OF assms(2)]
  have b: "buffer (request obj) = Some b" "bufs s b = Some bytes" "\<not> length bytes < sizeof_hdr"
    by simp_all
  then have len: "4 \<le> length bytes" by (simp add: sizeof_hdr_def)
  show ?thesis
    using assms(1) b len
    by (simp add: gb_pending_operation_insert_def Let_def list_del_def header_of_def
        hdr_operation_id_set u16_succ_zero)
qed

text \<open>The theorem at the freshly created operation 10: it gets the id 1.\<close>
theorem pending_insert_assigns_id_witness:
  "\<exists>s'. gb_pending_operation_insert 10 (final_world (created env_ok world0)) = Inr s' \<and>
        op_cycle (connection s') = 1 \<and>
        map_option op_id (ops s' 10) = Some 1 \<and>
        pending (connection s') = [10] \<and>
        operations (connection s') = [] \<and>
        map_option hdr_operation_id (bufs s' 20) = Some 1"
proof -
  let ?s = "final_world (created env_ok world0)"
  have h1: "ops ?s 10 = Some (the (ops ?s 10))"
    by (simp add: run_defs model_defs upt_rec)
  have h2: "header_of ?s (buffer (request (the (ops ?s 10)))) = Inr (20, [8, 0, 0, 0, 2, 0, 0, 0])"
    by (simp add: run_defs model_defs upt_rec)
  from pending_insert_assigns_id [OF h1 h2]
  show ?thesis
    by (simp add: run_defs model_defs upt_rec)
qed

text \<open>
  Claim C5 as stated (0 is skipped on wrap, so no operation with id 0 is on the pending
  list) fails: inserted when the counter is \<open>0xFFFF\<close>, operation 10 is on the
  pending list with id 0, and 0 is the id in its request header.
\<close>
theorem pending_insert_wrap_counterexample:
  "fault_of wrapped_insert = None \<and>
   pending (connection (final_world wrapped_insert)) = [10] \<and>
   map_option op_id (ops (final_world wrapped_insert) 10) = Some 0 \<and>
   map_option hdr_operation_id (bufs (final_world wrapped_insert) 20) = Some 0"
  by (simp add: run_defs model_defs upt_rec)

section \<open>Submit-time send failure\<close>

text \<open>
  Claim C6. When the connection is enabled and the driver's send returns an error
  pointer, \<^verbatim>\<open>gb_operation_request_send\<close> returns that error (a negative errno), the
  operation is on the pending list, the only call made is the send (so the timeout
  work is not scheduled and stays as it was, and no completion is delivered: the
  completion flag, the workqueue and the number of completions are unchanged).
\<close>
theorem request_send_failure:
  fixes ck :: pointer
  assumes en: "state (connection s) = GB_CONNECTION_STATE_ENABLED"
    and obj: "ops s opr = Some obj"
    and hdr: "header_of s (buffer (request obj)) = Inr (b, bytes)"
    and own: "operation (request obj) = Some opr"
    and ck: "ck = buffer_send e (trace s) (interface_cport_id (connection s))
                    (Some (hdr_set_operation_id (op_cycle (connection s) + 1) bytes))
                    (buffer_size (request obj)) GFP_KERNEL"
    and fail: "IS_ERR ck"
  shows "\<exists>s'. gb_operation_request_send e opr cb s = Inr (PTR_ERR ck, s') \<and>
           PTR_ERR ck < 0 \<and>
           opr \<in> set (pending (connection s')) \<and>
           trace s' = trace s @ [BufferSend (interface_cport_id (connection s)) (Some b)
                                   (buffer_size (request obj)) GFP_KERNEL ck] \<and>
           map_option timeout_work (ops s' opr) = Some (timeout_work obj) \<and>
           map_option completion (ops s' opr) = Some (completion obj) \<and>
           workqueue s' = workqueue s \<and>
           completions opr s' = completions opr s"
proof -
  from header_ofD [OF hdr]
  have b: "buffer (request obj) = Some b" "bufs s b = Some bytes" "\<not> length bytes < sizeof_hdr"
    by simp_all
  have neg: "PTR_ERR ck < 0" "PTR_ERR ck \<noteq> 0"
    using PTR_ERR_range [OF fail] by simp_all
  show ?thesis
    using en obj b own fail neg ck [symmetric]
    by (simp add: gb_operation_request_send_def gb_pending_operation_insert_def
        gb_message_send_def set_cookie_def Let_def list_del_def header_of_def log_event_def
        msg_get_def msg_set_def completions_def is_completion_def)
qed

text \<open>
  The theorem at the freshly created operation 10 and a driver whose send returns
  \<^verbatim>\<open>ERR_PTR(-ENOMEM)\<close>, for a synchronous submit.
\<close>
theorem request_send_failure_witness:
  "\<exists>s'. gb_operation_request_send env_send_fails 10 None
           (final_world (created env_send_fails world0)) = Inr (- ENOMEM, s') \<and>
        pending (connection s') = [10] \<and>
        trace s' = trace (final_world (created env_send_fails world0)) @
                     [BufferSend 3 (Some 20) 8 GFP_KERNEL (- 12)] \<and>
        map_option timeout_work (ops s' 10) = Some False \<and>
        map_option completion (ops s' 10) = Some False \<and>
        workqueue s' = [] \<and>
        completions 10 s' = 0"
proof -
  let ?s = "final_world (created env_send_fails world0)"
  have en: "state (connection ?s) = GB_CONNECTION_STATE_ENABLED"
    by (simp add: run_defs model_defs upt_rec)
  have obj: "ops ?s 10 = Some (the (ops ?s 10))"
    by (simp add: run_defs model_defs upt_rec)
  have hdr: "header_of ?s (buffer (request (the (ops ?s 10)))) =
               Inr (20, [8, 0, 0, 0, 2, 0, 0, 0])"
    by (simp add: run_defs model_defs upt_rec)
  have own: "operation (request (the (ops ?s 10))) = Some 10"
    by (simp add: run_defs model_defs upt_rec)
  have ck: "(- 12 :: pointer) =
              buffer_send env_send_fails (trace ?s) (interface_cport_id (connection ?s))
                (Some (hdr_set_operation_id (op_cycle (connection ?s) + 1)
                         [8, 0, 0, 0, 2, 0, 0, 0]))
                (buffer_size (request (the (ops ?s 10)))) GFP_KERNEL"
    by (simp add: env_send_fails_def env_ok_def)
  from request_send_failure [where e = env_send_fails and cb = None,
      OF en obj hdr own ck IS_ERR_enomem]
  show ?thesis
    by (simp add: run_defs model_defs upt_rec)
qed

section \<open>The size check of message buffers\<close>

text \<open>
  Claim C7, as amended. \<^verbatim>\<open>gb_operation_message_init\<close> fails with
  \<^verbatim>\<open>-E2BIG\<close> exactly when the requested payload size exceeds
  \<^verbatim>\<open>GB_OPERATION_MESSAGE_SIZE_MAX\<close> (4096); the header size is not subtracted. When
  it succeeds the frame has payload size plus header size bytes, at most 4096 + 8, and
  that size is the message's buffer size and the size field of its header.
\<close>
theorem message_init_size_check:
  assumes "ops s opr = Some obj"
  shows "\<exists>ret s'. gb_operation_message_init e opr type sz is_request gfp_flags s = Inr (ret, s') \<and>
           (ret = - E2BIG \<longleftrightarrow> GB_OPERATION_MESSAGE_SIZE_MAX < sz) \<and>
           (ret = 0 \<longrightarrow>
              (\<exists>obj' b bytes.
                 ops s' opr = Some obj' \<and>
                 buffer (msg_get (if is_request then Request else Response) obj') = Some b \<and>
                 buffer_size (msg_get (if is_request then Request else Response) obj') =
                   sz + sizeof_hdr \<and>
                 bufs s' b = Some bytes \<and>
                 length bytes = sz + sizeof_hdr \<and>
                 unat (hdr_size bytes) = sz + sizeof_hdr \<and>
                 sz + sizeof_hdr \<le> GB_OPERATION_MESSAGE_SIZE_MAX + sizeof_hdr))"
proof (cases "GB_OPERATION_MESSAGE_SIZE_MAX < sz")
  case True
  then show ?thesis
    using assms by (simp add: gb_operation_message_init_def E2BIG_def)
next
  case False
  show ?thesis
  proof (cases "buffer_alloc e (trace s) (sz + sizeof_hdr) gfp_flags")
    case None
    then show ?thesis
      using assms False
      by (simp add: gb_operation_message_init_def Let_def E2BIG_def ENOMEM_def)
  next
    case (Some contents)
    have small: "sz + 8 \<le> 4104"
      using False by (simp add: GB_OPERATION_MESSAGE_SIZE_MAX_def)
    have len: "2 \<le> length (map contents [0..<sz + 8])" by simp
    have sz: "unat (hdr_size (hdr_set_type t (hdr_set_operation_id 0
                (hdr_set_size (of_nat (sz + 8)) (map contents [0..<sz + 8]))))) = sz + 8" for t
      by (simp only: hdr_size_init [OF len] unat_frame_size [OF small])
    show ?thesis
      using assms False Some sz
      by (cases is_request)
        (simp_all add: gb_operation_message_init_def Let_def E2BIG_def log_event_def
          msg_get_def msg_set_def sizeof_hdr_def length_hdr_set)
  qed
qed

text \<open>The theorem at the zeroed object 10, for a request payload of 4 bytes.\<close>
theorem message_init_size_check_witness:
  "\<exists>s'. gb_operation_message_init env_ok 10 2 4 True GFP_KERNEL world_zalloc = Inr (0, s') \<and>
        map_option (buffer_size \<circ> request) (ops s' 10) = Some 12 \<and>
        map_option length (bufs s' 20) = Some 12 \<and>
        map_option hdr_size (bufs s' 20) = Some 12"
proof -
  have h: "ops world_zalloc 10 = Some zero_operation"
    by (simp add: world_zalloc_def world0_def)
  from message_init_size_check [OF h, of env_ok 2 4 True GFP_KERNEL]
  show ?thesis
    by (simp add: run_defs model_defs upt_rec)
qed

text \<open>
  Claim C7 as stated (allocation fails exactly when the payload exceeds the maximum
  frame size minus the header size, so no frame is larger than the maximum) fails: a
  payload of 4090 bytes exceeds 4096 - 8, and the allocation succeeds with a frame of
  4098 bytes.
\<close>
theorem message_init_frame_counterexample:
  "GB_OPERATION_MESSAGE_SIZE_MAX - sizeof_hdr < 4090 \<and>
   gb_operation_message_init env_ok 10 2 4090 True GFP_KERNEL world_zalloc =
     Inr (0, final_world large_init) \<and>
   map_option (buffer_size \<circ> request) (ops (final_world large_init) 10) = Some 4098 \<and>
   map_option length (bufs (final_world large_init) 20) = Some 4098 \<and>
   GB_OPERATION_MESSAGE_SIZE_MAX < 4098"
  by (simp add: large_init_def world_after_def final_world_def
      gb_operation_message_init_def Let_def world_zalloc_def world0_def env_ok_def
      GB_OPERATION_MESSAGE_SIZE_MAX_def sizeof_hdr_def log_event_def msg_get_def msg_set_def
      zero_operation_def zero_message_def length_hdr_set)

section \<open>Buffers of a destroyed operation\<close>

text \<open>
  An outgoing operation has both buffers, and destroying it frees each of them once:
  the response buffer 21, then the request buffer 20, then the object.
\<close>
lemma destroy_outgoing_frees_both:
  "fault_of outgoing_released = None \<and>
   trace (final_world outgoing_released) =
     [KmemCacheZalloc GFP_KERNEL (Some 10), BufferAlloc 8 GFP_KERNEL (Some 20),
      BufferAlloc 12 GFP_KERNEL (Some 21), BufferFree (Some 21), BufferFree (Some 20),
      KmemCacheFree 10] \<and>
   bufs (final_world outgoing_released) 20 = None \<and>
   bufs (final_world outgoing_released) 21 = None \<and>
   ops (final_world outgoing_released) 10 = None \<and>
   operations (connection (final_world outgoing_released)) = []"
  by (simp add: run_defs model_defs upt_rec)

text \<open>
  Claim C8 (the driver's \<^verbatim>\<open>buffer_free\<close> is called exactly once for every buffer
  its \<^verbatim>\<open>buffer_alloc\<close> returned, on all paths). For an incoming operation, which has
  no response buffer, \<^verbatim>\<open>_gb_operation_destroy\<close> calls
  \<^verbatim>\<open>gb_operation_message_exit\<close> on the response message first, and that function
  dereferences the message's NULL operation pointer: the run \<open>incoming_released\<close> ends
  in a fault before any \<^verbatim>\<open>buffer_free\<close>, with the request buffer 20 still allocated.
\<close>
theorem destroy_incoming_faults_before_free:
  "fault_of incoming_released = Some NullPointer \<and>
   trace (final_world incoming_released) =
     [KmemCacheZalloc GFP_ATOMIC (Some 10), BufferAlloc 18 GFP_ATOMIC (Some 20),
      QueueWork 10, ConnectionErr (UnexpectedIncomingRequest 3), CompleteAll 10] \<and>
   BufferFree (Some 20) \<notin> set (trace (final_world incoming_released)) \<and>
   bufs (final_world incoming_released) 20 \<noteq> None \<and>
   ops (final_world incoming_released) 10 \<noteq> None"
  by (simp add: run_defs model_defs upt_rec)

section \<open>Cancelling twice\<close>

text \<open>
  Claim C9, as amended. A second \<^verbatim>\<open>gb_operation_cancel\<close> leaves the operation as
  the first left it (the canceled flag set, nothing else changed), but it is not
  idempotent on the transport: every cancel calls the driver's \<^verbatim>\<open>buffer_cancel\<close>
  for the request when its cookie is not NULL and for the response when it has a
  buffer and its cookie is not NULL, so the second cancel repeats the calls of the
  first.
\<close>
theorem cancel_twice:
  assumes obj: "ops s opr = Some obj"
    and req: "operation (request obj) = Some opr"
    and resp: "buffer (response obj) = None \<or> operation (response obj) = Some opr"
  shows "\<exists>s1. gb_operation_cancel opr s = Inr s1 \<and>
           s1 = s\<lparr>ops := (ops s)(opr \<mapsto> obj\<lparr>canceled := True\<rparr>),
                   trace := trace s @ cancel_calls obj\<rparr> \<and>
           gb_operation_cancel opr s1 = Inr (s1\<lparr>trace := trace s1 @ cancel_calls obj\<rparr>)"
proof (cases "buffer (response obj) = None")
  case True
  then show ?thesis
    using obj req
    by (simp add: gb_operation_cancel_def gb_message_cancel_def cancel_calls_def Let_def
        log_event_def msg_get_def)
next
  case False
  with resp have "operation (response obj) = Some opr" by simp
  then show ?thesis
    using obj req False
    by (simp add: gb_operation_cancel_def gb_message_cancel_def cancel_calls_def Let_def
        log_event_def msg_get_def)
qed

text \<open>The theorem at the submitted operation 10, whose request cookie is \<open>0x1000\<close>.\<close>
theorem cancel_twice_witness:
  "\<exists>s1. gb_operation_cancel 10 (final_world (submitted env_ok world0)) = Inr s1 \<and>
        map_option canceled (ops s1 10) = Some True \<and>
        trace s1 = trace (final_world (submitted env_ok world0)) @ [BufferCancel 0x1000] \<and>
        gb_operation_cancel 10 s1 = Inr (s1\<lparr>trace := trace s1 @ [BufferCancel 0x1000]\<rparr>)"
proof -
  let ?s = "final_world (submitted env_ok world0)"
  have obj: "ops ?s 10 = Some (the (ops ?s 10))"
    by (simp add: run_defs model_defs upt_rec)
  have req: "operation (request (the (ops ?s 10))) = Some 10"
    by (simp add: run_defs model_defs upt_rec)
  have resp: "buffer (response (the (ops ?s 10))) = None \<or>
              operation (response (the (ops ?s 10))) = Some 10"
    by (simp add: run_defs model_defs upt_rec)
  have calls: "cancel_calls (the (ops ?s 10)) = [BufferCancel 0x1000]"
    by (simp add: run_defs model_defs upt_rec)
  from cancel_twice [OF obj req resp]
  show ?thesis
    by (auto simp: calls)
qed

text \<open>
  Claim C9 as stated (two cancels have the same sequence of effects on the transport
  as one) fails: the submitted operation 10 is in flight with cookie \<open>0x1000\<close>; one
  cancel calls \<^verbatim>\<open>buffer_cancel\<close> once, two cancels call it twice.
\<close>
theorem cancel_twice_counterexample:
  "fault_of cancelled_once = None \<and>
   fault_of cancelled_twice = None \<and>
   trace (final_world cancelled_once) =
     trace (final_world (submitted env_ok world0)) @ [BufferCancel 0x1000] \<and>
   trace (final_world cancelled_twice) =
     trace (final_world (submitted env_ok world0)) @ [BufferCancel 0x1000, BufferCancel 0x1000] \<and>
   trace (final_world cancelled_twice) \<noteq> trace (final_world cancelled_once) \<and>
   ops (final_world cancelled_twice) 10 = ops (final_world cancelled_once) 10"
  by (simp add: run_defs model_defs upt_rec)

section \<open>Releasing a null reference\<close>

text \<open>
  For comparison, releasing a reference to a live operation that is not the last one
  decrements its reference count.
\<close>
lemma gb_operation_put_live:
  "ops s opr = Some obj \<Longrightarrow> kref obj \<noteq> 1 \<Longrightarrow>
   gb_operation_put (Some opr) s = Inr (s\<lparr>ops := (ops s)(opr \<mapsto> obj\<lparr>kref := kref obj - 1\<rparr>)\<rparr>)"
  by (simp add: gb_operation_put_def Let_def)

text \<open>
  Claim C10. \<^verbatim>\<open>gb_operation_put\<close> called with a NULL operation pointer only emits the
  warning of \<^verbatim>\<open>WARN_ON\<close>: the world it returns is the world it was given with that
  one event appended to the trace, so no reference count is decremented, no object or
  buffer is freed and no list is touched.
\<close>
theorem gb_operation_put_null:
  "gb_operation_put None s = Inr (s\<lparr>trace := trace s @ [WarnOn]\<rparr>)"
  by (simp add: gb_operation_put_def log_event_def)

end
